theory Spec2Isabelle
  imports Main
begin

section \<open>Data model\<close>

text \<open>
  The reservation backend keeps two tables (products and reservations) in a relational
  store reached through Prisma, and a queue of delayed expiration jobs (BullMQ).
  Identifiers are strings, instants are milliseconds since the epoch (what
  \<^verbatim>\<open>Date.getTime()\<close> returns), quantities and stock are integers. In the store
  \<^verbatim>\<open>availableStock\<close> and \<^verbatim>\<open>quantity\<close> are \<^verbatim>\<open>Int\<close> columns, 32-bit signed
  integers: a value outside that range is refused by the store with an error and nothing
  is written (it does not wrap around). The model keeps the values as integers and writes
  the refusal out.
  Only the columns the reservation service reads or writes are kept: the descriptive
  columns of a product (name, price, thumbnail) and the store-maintained
  \<^verbatim>\<open>createdAt\<close>/\<^verbatim>\<open>updatedAt\<close> stamps are never read by the service.
\<close>

type_synonym ident = string
type_synonym time = int

definition fitsInt4 :: "int \<Rightarrow> bool" where
  "fitsInt4 n \<longleftrightarrow> - 2147483648 \<le> n \<and> n \<le> 2147483647"

datatype ReservationStatus = ACTIVE | COMPLETED | EXPIRED

definition RESERVATION_DURATION_MS :: int where
  "RESERVATION_DURATION_MS = 2 * 60 * 1000"

definition JOB_RETRY_ATTEMPTS :: nat where
  "JOB_RETRY_ATTEMPTS = 3"

definition JOB_RETRY_DELAY_MS :: int where
  "JOB_RETRY_DELAY_MS = 5000"

record Product =
  p_id :: ident
  availableStock :: int

record Reservation =
  r_id :: ident
  productId :: ident
  quantity :: int
  status :: ReservationStatus
  expiresAt :: time

record CreateReservationDto =
  dto_productId :: ident
  dto_quantity :: int

text \<open>A table is the list of its rows, in insertion order.\<close>

record db =
  products :: "Product list"
  reservations :: "Reservation list"

text \<open>
  A job of the \<^verbatim>\<open>reservation-expiration\<close> queue: the options the service passes
  to \<^verbatim>\<open>queue.add\<close>. The flag \<open>online\<close> says whether the queue's backend answers;
  when it does not, every queue call throws.
\<close>

record Job =
  jobId :: string
  jobName :: string
  reservationId :: ident
  delay :: int
  attempts :: nat
  backoffDelay :: int

record queue =
  online :: bool
  jobs :: "Job list"

record sys =
  database :: db
  expirationQueue :: queue

text \<open>
  Every exception the service raises, and the store errors its calls can meet (an update
  of a row that does not exist, a duplicate primary key, an integer that does not fit its
  32-bit column), as values.
\<close>

datatype error =
    ProductNotFound ident
  | InsufficientStock int int
  | ReservationNotFound ident
  | CannotComplete ReservationStatus
  | ReservationHasExpired
  | RecordNotFound
  | UniqueConstraintFailed
  | IntegerOutOfRange
  | QueueUnavailable

section \<open>The store\<close>

definition findUniqueProduct :: "db \<Rightarrow> ident \<Rightarrow> Product option" where
  "findUniqueProduct d i = find (\<lambda>p. p_id p = i) (products d)"

definition findUniqueReservation :: "db \<Rightarrow> ident \<Rightarrow> Reservation option" where
  "findUniqueReservation d i = find (\<lambda>r. r_id r = i) (reservations d)"

text \<open>
  The three kinds of write the service issues: \<^verbatim>\<open>reservation.create\<close>,
  \<^verbatim>\<open>reservation.update\<close>/\<^verbatim>\<open>updateMany\<close> of the status of the rows whose
  id is in a list, and \<^verbatim>\<open>product.update\<close> with an increment of
  \<^verbatim>\<open>availableStock\<close> (a decrement is a negative increment).
\<close>

datatype store_write =
    ReservationCreate Reservation
  | ReservationSetStatus "ident list" ReservationStatus
  | ProductIncrement ident int

fun apply_write :: "store_write \<Rightarrow> db \<Rightarrow> db" where
  "apply_write (ReservationCreate r) d = d\<lparr>reservations := reservations d @ [r]\<rparr>"
| "apply_write (ReservationSetStatus ids st) d =
     d\<lparr>reservations :=
         map (\<lambda>r. if r_id r \<in> set ids then r\<lparr>status := st\<rparr> else r) (reservations d)\<rparr>"
| "apply_write (ProductIncrement pid n) d =
     d\<lparr>products :=
         map (\<lambda>p. if p_id p = pid then p\<lparr>availableStock := availableStock p + n\<rparr> else p)
           (products d)\<rparr>"

text \<open>
  An interactive transaction \<^verbatim>\<open>prisma.$transaction(async (tx) => ...)\<close>.
  Inside the callback two clients are in reach: \<^verbatim>\<open>tx\<close>, whose writes stay pending
  until the callback returns, and the service's own \<^verbatim>\<open>this.prisma\<close> (and its
  queue), whose writes take effect at once. \<open>outer\<close> is the state everyone sees,
  \<open>pending\<close> the writes of \<^verbatim>\<open>tx\<close> so far. A read through \<^verbatim>\<open>tx\<close> sees the
  committed rows with the transaction's own writes on top. When the callback returns, the
  pending writes are committed; when it throws, they are dropped, and whatever went
  through the outer client stays.
\<close>

record txn =
  outer :: sys
  pending :: "store_write list"

definition tx_view :: "txn \<Rightarrow> db" where
  "tx_view t = foldl (\<lambda>d w. apply_write w d) (database (outer t)) (pending t)"

definition tx_write :: "txn \<Rightarrow> store_write \<Rightarrow> txn" where
  "tx_write t w = t\<lparr>pending := pending t @ [w]\<rparr>"

definition transaction :: "(txn \<Rightarrow> (error + 'a) \<times> txn) \<Rightarrow> sys \<Rightarrow> (error + 'a) \<times> sys" where
  "transaction body s =
     (case body \<lparr>outer = s, pending = []\<rparr> of
        (Inl e, t) \<Rightarrow> (Inl e, outer t)
      | (Inr v, t) \<Rightarrow> (Inr v, (outer t)\<lparr>database := tx_view t\<rparr>))"

text \<open>\<^verbatim>\<open>tx.reservation.update({where: {id}, data: {status}})\<close>: fails when no row has the id.\<close>

definition tx_reservation_update :: "txn \<Rightarrow> ident \<Rightarrow> ReservationStatus \<Rightarrow> error + (Reservation \<times> txn)" where
  "tx_reservation_update t i st =
     (case findUniqueReservation (tx_view t) i of
        None \<Rightarrow> Inl RecordNotFound
      | Some r \<Rightarrow> Inr (r\<lparr>status := st\<rparr>, tx_write t (ReservationSetStatus [i] st)))"

text \<open>
  \<^verbatim>\<open>tx.reservation.create({data})\<close>: the quantity must fit its 32-bit column, and the
  id is the primary key.
\<close>

definition tx_reservation_create :: "txn \<Rightarrow> Reservation \<Rightarrow> error + (Reservation \<times> txn)" where
  "tx_reservation_create t r =
     (if fitsInt4 (quantity r) then
        (case findUniqueReservation (tx_view t) (r_id r) of
           Some _ \<Rightarrow> Inl UniqueConstraintFailed
         | None \<Rightarrow> Inr (r, tx_write t (ReservationCreate r)))
      else Inl IntegerOutOfRange)"

text \<open>
  \<^verbatim>\<open>product.update({where: {id}, data: {availableStock: {increment: n}}})\<close> against the
  rows \<open>d\<close> that the issuing client sees: the write it amounts to, or the error. The update
  fails when no row has the id, and the store refuses it when the increment or the
  resulting stock does not fit the 32-bit column. Either way nothing is written. (When the
  row is missing and the increment does not fit either, the model reports the missing row.)
\<close>

definition product_increment :: "db \<Rightarrow> ident \<Rightarrow> int \<Rightarrow> error + store_write" where
  "product_increment d pid n =
     (case findUniqueProduct d pid of
        None \<Rightarrow> Inl RecordNotFound
      | Some p \<Rightarrow>
          if fitsInt4 n \<and> fitsInt4 (availableStock p + n) then Inr (ProductIncrement pid n)
          else Inl IntegerOutOfRange)"

text \<open>\<^verbatim>\<open>tx.product.update({where: {id}, data: {availableStock: {increment: n}}})\<close>.\<close>

definition tx_product_update :: "txn \<Rightarrow> ident \<Rightarrow> int \<Rightarrow> error + txn" where
  "tx_product_update t pid n =
     (case product_increment (tx_view t) pid n of
        Inl e \<Rightarrow> Inl e
      | Inr w \<Rightarrow> Inr (tx_write t w))"

text \<open>
  \<^verbatim>\<open>tx.product.update({where: {id}, data: {availableStock: {decrement: n}}})\<close>: the same
  with a subtraction; the operand \<open>n\<close> and the resulting stock must fit the column.
\<close>

definition product_decrement :: "db \<Rightarrow> ident \<Rightarrow> int \<Rightarrow> error + store_write" where
  "product_decrement d pid n =
     (case findUniqueProduct d pid of
        None \<Rightarrow> Inl RecordNotFound
      | Some p \<Rightarrow>
          if fitsInt4 n \<and> fitsInt4 (availableStock p - n) then Inr (ProductIncrement pid (- n))
          else Inl IntegerOutOfRange)"

definition tx_product_decrement :: "txn \<Rightarrow> ident \<Rightarrow> int \<Rightarrow> error + txn" where
  "tx_product_decrement t pid n =
     (case product_decrement (tx_view t) pid n of
        Inl e \<Rightarrow> Inl e
      | Inr w \<Rightarrow> Inr (tx_write t w))"

section \<open>The products service\<close>

text \<open>
  \<^verbatim>\<open>ProductsService.incrementStock\<close> updates the product through the service's own
  client \<^verbatim>\<open>this.prisma\<close>, not through a transaction handle: its write is committed at
  once, whoever calls it.
\<close>

definition incrementStock :: "sys \<Rightarrow> ident \<Rightarrow> int \<Rightarrow> error + sys" where
  "incrementStock s pid n =
     (case product_increment (database s) pid n of
        Inl e \<Rightarrow> Inl e
      | Inr w \<Rightarrow> Inr (s\<lparr>database := apply_write w (database s)\<rparr>))"

section \<open>The expiration queue\<close>

definition expireKey :: "ident \<Rightarrow> string" where
  "expireKey i = ''expire-'' @ i"

definition getJob :: "queue \<Rightarrow> string \<Rightarrow> error + Job option" where
  "getJob q k = (if online q then Inr (find (\<lambda>j. jobId j = k) (jobs q)) else Inl QueueUnavailable)"

definition removeJob :: "queue \<Rightarrow> string \<Rightarrow> error + queue" where
  "removeJob q k =
     (if online q then Inr (q\<lparr>jobs := filter (\<lambda>j. jobId j \<noteq> k) (jobs q)\<rparr>)
      else Inl QueueUnavailable)"

text \<open>\<^verbatim>\<open>queue.add\<close> with a custom job id ignores the call when a job has that id.\<close>

definition addJob :: "queue \<Rightarrow> Job \<Rightarrow> error + queue" where
  "addJob q j =
     (if online q then
        (case find (\<lambda>j'. jobId j' = jobId j) (jobs q) of
           Some _ \<Rightarrow> Inr q
         | None \<Rightarrow> Inr (q\<lparr>jobs := jobs q @ [j]\<rparr>))
      else Inl QueueUnavailable)"

definition expirationJob :: "ident \<Rightarrow> int \<Rightarrow> Job" where
  "expirationJob i dl =
     \<lparr>jobId = expireKey i, jobName = ''expire-reservation'', reservationId = i, delay = dl,
      attempts = JOB_RETRY_ATTEMPTS, backoffDelay = JOB_RETRY_DELAY_MS\<rparr>"

text \<open>
  \<^verbatim>\<open>const job = await queue.getJob(key); if (job) await job.remove();\<close> inside a
  \<^verbatim>\<open>try\<close> whose \<^verbatim>\<open>catch\<close> only logs.
\<close>

definition removeExistingJob :: "queue \<Rightarrow> string \<Rightarrow> queue" where
  "removeExistingJob q k =
     (case getJob q k of
        Inl _ \<Rightarrow> q
      | Inr None \<Rightarrow> q
      | Inr (Some _) \<Rightarrow> (case removeJob q k of Inl _ \<Rightarrow> q | Inr q' \<Rightarrow> q'))"

text \<open>\<^verbatim>\<open>scheduleExpirationJob(queue, reservationId, expiresAt, logger)\<close>; \<open>now\<close> is its clock reading.\<close>

definition scheduleExpirationJob :: "queue \<Rightarrow> ident \<Rightarrow> time \<Rightarrow> time \<Rightarrow> queue" where
  "scheduleExpirationJob q i expAt now =
     (case getJob q (expireKey i) of
        Inl _ \<Rightarrow> q
      | Inr (Some _) \<Rightarrow> q
      | Inr None \<Rightarrow>
          (let dl = max 0 (expAt - now) in
           if dl > 0 then (case addJob q (expirationJob i dl) of Inl _ \<Rightarrow> q | Inr q' \<Rightarrow> q')
           else q))"

section \<open>The reservations service\<close>

text \<open>
  The \<^verbatim>\<open>reduce\<close> of \<^verbatim>\<open>expireReservationsAndRestoreStock\<close>. JavaScript adds the
  quantities as numbers, which is exact on integers far beyond 32 bits; a total that does
  not fit 32 bits is refused by the store when it arrives as the increment.
\<close>

definition totalQuantity :: "Reservation list \<Rightarrow> int" where
  "totalQuantity rs = foldl (\<lambda>sum res. sum + quantity res) 0 rs"

text \<open>\<^verbatim>\<open>expireReservationsAndRestoreStock(prisma, reservations, productId)\<close>, called with \<^verbatim>\<open>tx\<close>.\<close>

definition expireReservationsAndRestoreStock :: "txn \<Rightarrow> Reservation list \<Rightarrow> ident \<Rightarrow> error + txn" where
  "expireReservationsAndRestoreStock t rs pid =
     (if rs = [] then Inr t
      else tx_product_update (tx_write t (ReservationSetStatus (map r_id rs) EXPIRED)) pid
             (totalQuantity rs))"

text \<open>The query of \<^verbatim>\<open>create\<close>: the active reservations of the product with \<^verbatim>\<open>expiresAt <= now\<close>.\<close>

definition findExpiredOfProduct :: "db \<Rightarrow> ident \<Rightarrow> time \<Rightarrow> Reservation list" where
  "findExpiredOfProduct d pid now =
     filter (\<lambda>r. productId r = pid \<and> status r = ACTIVE \<and> expiresAt r \<le> now) (reservations d)"

text \<open>
  The callback of \<^verbatim>\<open>create\<close>. \<open>now\<close> is the reading of \<^verbatim>\<open>new Date()\<close> at its start,
  \<open>dateNow\<close> the later reading of \<^verbatim>\<open>Date.now()\<close>, \<open>newId\<close> the id the store
  generates for the new row.
\<close>

definition create_body :: "time \<Rightarrow> time \<Rightarrow> ident \<Rightarrow> ident \<Rightarrow> int \<Rightarrow> txn \<Rightarrow> (error + Reservation) \<times> txn" where
  "create_body now dateNow newId pid qty t =
     (let expiredReservations = findExpiredOfProduct (tx_view t) pid now in
      case (if length expiredReservations > 0
            then expireReservationsAndRestoreStock t expiredReservations pid
            else Inr t) of
        Inl e \<Rightarrow> (Inl e, t)
      | Inr t1 \<Rightarrow>
          (case findUniqueProduct (tx_view t1) pid of
             None \<Rightarrow> (Inl (ProductNotFound pid), t1)
           | Some product \<Rightarrow>
               if availableStock product < qty
               then (Inl (InsufficientStock (availableStock product) qty), t1)
               else
                 (case tx_reservation_create t1
                         \<lparr>r_id = newId, productId = pid, quantity = qty, status = ACTIVE,
                          expiresAt = dateNow + RESERVATION_DURATION_MS\<rparr> of
                    Inl e \<Rightarrow> (Inl e, t1)
                  | Inr (newReservation, t2) \<Rightarrow>
                      (case tx_product_decrement t2 pid qty of
                         Inl e \<Rightarrow> (Inl e, t2)
                       | Inr t3 \<Rightarrow> (Inr newReservation, t3)))))"

text \<open>
  \<^verbatim>\<open>ReservationsService.create\<close>: the transaction, then, once it has committed,
  the scheduling of the expiration job (\<open>schedNow\<close> is the clock reading there).
\<close>

definition create :: "time \<Rightarrow> time \<Rightarrow> time \<Rightarrow> ident \<Rightarrow> CreateReservationDto \<Rightarrow> sys \<Rightarrow> (error + Reservation) \<times> sys" where
  "create now dateNow schedNow newId dto s =
     (case transaction (create_body now dateNow newId (dto_productId dto) (dto_quantity dto)) s of
        (Inl e, s') \<Rightarrow> (Inl e, s')
      | (Inr reservation, s') \<Rightarrow>
          (Inr reservation,
           s'\<lparr>expirationQueue :=
                scheduleExpirationJob (expirationQueue s') (r_id reservation)
                  (expiresAt reservation) schedNow\<rparr>))"

text \<open>\<^verbatim>\<open>ReservationsService.findOne\<close>, with the product row it includes.\<close>

definition findOne :: "ident \<Rightarrow> sys \<Rightarrow> (error + (Reservation \<times> Product option)) \<times> sys" where
  "findOne i s =
     (case findUniqueReservation (database s) i of
        None \<Rightarrow> (Inl (ReservationNotFound i), s)
      | Some reservation \<Rightarrow>
          (Inr (reservation, findUniqueProduct (database s) (productId reservation)), s))"

text \<open>The callback of \<^verbatim>\<open>complete\<close>; \<open>now\<close> is the reading of \<^verbatim>\<open>new Date()\<close>.\<close>

definition complete_body :: "time \<Rightarrow> ident \<Rightarrow> txn \<Rightarrow> (error + Reservation) \<times> txn" where
  "complete_body now i t =
     (case findUniqueReservation (tx_view t) i of
        None \<Rightarrow> (Inl (ReservationNotFound i), t)
      | Some reservation \<Rightarrow>
          if status reservation \<noteq> ACTIVE then (Inl (CannotComplete (status reservation)), t)
          else if now > expiresAt reservation then
            (case tx_reservation_update t i EXPIRED of
               Inl e \<Rightarrow> (Inl e, t)
             | Inr (_, t1) \<Rightarrow>
                 (case incrementStock (outer t1) (productId reservation) (quantity reservation) of
                    Inl e \<Rightarrow> (Inl e, t1)
                  | Inr s' \<Rightarrow> (Inl ReservationHasExpired, t1\<lparr>outer := s'\<rparr>)))
          else
            (case tx_reservation_update t i COMPLETED of
               Inl e \<Rightarrow> (Inl e, t)
             | Inr (updated, t1) \<Rightarrow>
                 (Inr updated,
                  t1\<lparr>outer := (outer t1)\<lparr>expirationQueue :=
                       removeExistingJob (expirationQueue (outer t1)) (expireKey i)\<rparr>\<rparr>)))"

definition complete :: "time \<Rightarrow> ident \<Rightarrow> sys \<Rightarrow> (error + Reservation) \<times> sys" where
  "complete now i s = transaction (complete_body now i) s"

text \<open>The callback of \<^verbatim>\<open>expire\<close>. It reads no clock.\<close>

definition expire_body :: "ident \<Rightarrow> txn \<Rightarrow> (error + unit) \<times> txn" where
  "expire_body i t =
     (case findUniqueReservation (tx_view t) i of
        None \<Rightarrow> (Inr (), t)
      | Some reservation \<Rightarrow>
          if status reservation = ACTIVE then
            (case tx_reservation_update t i EXPIRED of
               Inl e \<Rightarrow> (Inl e, t)
             | Inr (_, t1) \<Rightarrow>
                 (case incrementStock (outer t1) (productId reservation) (quantity reservation) of
                    Inl e \<Rightarrow> (Inl e, t1)
                  | Inr s' \<Rightarrow> (Inr (), t1\<lparr>outer := s'\<rparr>)))
          else (Inr (), t))"

definition expire :: "ident \<Rightarrow> sys \<Rightarrow> (error + unit) \<times> sys" where
  "expire i s = transaction (expire_body i) s"

text \<open>
  The loop of \<^verbatim>\<open>recoverReservations\<close> over the active reservations it has read. The
  whole loop stands in one \<^verbatim>\<open>try\<close>: an exception of \<^verbatim>\<open>expire\<close> or of
  \<^verbatim>\<open>queue.add\<close> ends it, with what was done so far kept.
\<close>

fun recoverLoop :: "time \<Rightarrow> Reservation list \<Rightarrow> sys \<Rightarrow> sys" where
  "recoverLoop now [] s = s"
| "recoverLoop now (reservation # rest) s =
     (if now > expiresAt reservation then
        (case expire (r_id reservation) s of
           (Inl _, s') \<Rightarrow> s'
         | (Inr _, s') \<Rightarrow> recoverLoop now rest s')
      else
        (let remainingTime = expiresAt reservation - now in
         if remainingTime > 0 then
           (let q1 = removeExistingJob (expirationQueue s) (expireKey (r_id reservation)) in
            case addJob q1 (expirationJob (r_id reservation) remainingTime) of
              Inl _ \<Rightarrow> s\<lparr>expirationQueue := q1\<rparr>
            | Inr q2 \<Rightarrow> recoverLoop now rest (s\<lparr>expirationQueue := q2\<rparr>))
         else recoverLoop now rest s))"

definition recoverReservations :: "time \<Rightarrow> sys \<Rightarrow> sys" where
  "recoverReservations now s =
     recoverLoop now (filter (\<lambda>r. status r = ACTIVE) (reservations (database s))) s"

section \<open>Sequences of calls\<close>

text \<open>
  A call of one of the three state-changing operations, with the clock readings and the
  generated id it meets. A run applies the calls one after the other; a call that ends in
  an error leaves whatever state it leaves and the run goes on.
\<close>

datatype operation =
    Create time time time ident CreateReservationDto
  | Complete time ident
  | Expire ident

fun step :: "sys \<Rightarrow> operation \<Rightarrow> sys" where
  "step s (Create now dateNow schedNow newId dto) = snd (create now dateNow schedNow newId dto s)"
| "step s (Complete now i) = snd (complete now i s)"
| "step s (Expire i) = snd (expire i s)"

definition run :: "operation list \<Rightarrow> sys \<Rightarrow> sys" where
  "run ops s = foldl step s ops"

text \<open>
  The quantity of a product that its reservations hold: the sum of the quantities of the
  reservations of the product whose status is ACTIVE or COMPLETED.
\<close>

definition heldQuantity :: "db \<Rightarrow> ident \<Rightarrow> int" where
  "heldQuantity d pid =
     sum_list (map quantity
       (filter (\<lambda>r. productId r = pid \<and> (status r = ACTIVE \<or> status r = COMPLETED))
          (reservations d)))"

text \<open>
  The store after the first step of \<^verbatim>\<open>create\<close>, as the transaction sees it when the
  step goes through: the stale holds of the product set to EXPIRED and their quantities
  added to its stock in one increment; nothing when there is no stale hold.
\<close>

definition afterLazyExpiration :: "db \<Rightarrow> ident \<Rightarrow> time \<Rightarrow> db" where
  "afterLazyExpiration d pid now =
     (let stale = findExpiredOfProduct d pid now in
      if stale = [] then d
      else apply_write (ProductIncrement pid (totalQuantity stale))
             (apply_write (ReservationSetStatus (map r_id stale) EXPIRED) d))"

text \<open>
  A store is well formed when product ids are unique (the id is the primary key), no stock
  is negative and no reservation has a negative quantity. A create call is valid when its
  quantity is at least 1, which the validation of \<^verbatim>\<open>CreateReservationDto\<close> (\<^verbatim>\<open>@Min(1)\<close>)
  demands before the service is reached.
\<close>

definition wellFormed :: "db \<Rightarrow> bool" where
  "wellFormed d \<longleftrightarrow>
     distinct (map p_id (products d)) \<and>
     list_all (\<lambda>p. 0 \<le> availableStock p) (products d) \<and>
     list_all (\<lambda>r. 0 \<le> quantity r) (reservations d)"

fun validOperation :: "operation \<Rightarrow> bool" where
  "validOperation (Create now dateNow schedNow newId dto) = (1 \<le> dto_quantity dto)"
| "validOperation (Complete now i) = True"
| "validOperation (Expire i) = True"

section \<open>Example states\<close>

definition emptyQueue :: queue where
  "emptyQueue = \<lparr>online = True, jobs = []\<rparr>"

text \<open>One product with one unit in stock and no reservation, and four calls against it.\<close>

definition shopOneLeft :: sys where
  "shopOneLeft =
     \<lparr>database = \<lparr>products = [\<lparr>p_id = ''p1'', availableStock = 1\<rparr>], reservations = []\<rparr>,
      expirationQueue = emptyQueue\<rparr>"

definition oversellingRun :: "operation list" where
  "oversellingRun =
     [Create 0 0 0 ''r1'' \<lparr>dto_productId = ''p1'', dto_quantity = 1\<rparr>,
      Complete 120001 ''r1'',
      Create 120002 120002 120002 ''r2'' \<lparr>dto_productId = ''p1'', dto_quantity = 1\<rparr>,
      Create 120003 120003 120003 ''r3'' \<lparr>dto_productId = ''p1'', dto_quantity = 1\<rparr>]"

text \<open>A product with no stock left and one active hold of two units that ran out at 1000.\<close>

definition staleHold :: Reservation where
  "staleHold = \<lparr>r_id = ''r1'', productId = ''p1'', quantity = 2, status = ACTIVE, expiresAt = 1000\<rparr>"

definition shopStaleHold :: sys where
  "shopStaleHold =
     \<lparr>database = \<lparr>products = [\<lparr>p_id = ''p1'', availableStock = 0\<rparr>], reservations = [staleHold]\<rparr>,
      expirationQueue = emptyQueue\<rparr>"

text \<open>A product with three units in stock and an active hold of two units until 120000.\<close>

definition lateHold :: Reservation where
  "lateHold = \<lparr>r_id = ''r1'', productId = ''p1'', quantity = 2, status = ACTIVE, expiresAt = 120000\<rparr>"

definition shopLateHold :: sys where
  "shopLateHold =
     \<lparr>database = \<lparr>products = [\<lparr>p_id = ''p1'', availableStock = 3\<rparr>], reservations = [lateHold]\<rparr>,
      expirationQueue = emptyQueue\<rparr>"



text \<open>A product whose stock is the largest value of its column, with the stale hold of two units.\<close>

definition shopFullStock :: sys where
  "shopFullStock =
     \<lparr>database = \<lparr>products = [\<lparr>p_id = ''p1'', availableStock = 2147483647\<rparr>],
                  reservations = [staleHold]\<rparr>,
      expirationQueue = emptyQueue\<rparr>"

text \<open>An active hold whose product row is gone: the increment of its stock fails.\<close>

definition shopOrphanHold :: sys where
  "shopOrphanHold =
     \<lparr>database = \<lparr>products = [], reservations = [staleHold]\<rparr>, expirationQueue = emptyQueue\<rparr>"

text \<open>An active hold of one unit whose deadline is 5000, met by a restart at 5000.\<close>

definition boundaryHold :: Reservation where
  "boundaryHold = \<lparr>r_id = ''r1'', productId = ''p1'', quantity = 1, status = ACTIVE, expiresAt = 5000\<rparr>"

definition shopBoundaryHold :: sys where
  "shopBoundaryHold =
     \<lparr>database = \<lparr>products = [\<lparr>p_id = ''p1'', availableStock = 0\<rparr>], reservations = [boundaryHold]\<rparr>,
      expirationQueue = emptyQueue\<rparr>"

text \<open>A queue that already holds the expiration job of reservation \<open>r1\<close>.\<close>

definition queueWithJob :: queue where
  "queueWithJob = \<lparr>online = True, jobs = [expirationJob ''r1'' 600]\<rparr>"

section \<open>Looking rows up after a write\<close>

lemma find_map_key:
  assumes "\<And>x. key (f x) = key x"
  shows "find (\<lambda>x. key x = k) (map f xs) = map_option f (find (\<lambda>x. key x = k) xs)"
  by (induction xs) (simp_all add: assms)

lemma find_snoc:
  "find P (xs @ [y]) =
     (case find P xs of Some x \<Rightarrow> Some x | None \<Rightarrow> if P y then Some y else None)"
  by (induction xs) simp_all

lemma find_key_id: "find (\<lambda>x. key x = k) xs = Some y \<Longrightarrow> key y = k"
  by (induction xs) (auto split: if_splits)

lemma find_None_filter: "find P xs = None \<Longrightarrow> filter P xs = []"
  by (induction xs) (auto split: if_splits)


lemma findUniqueProduct_id: "findUniqueProduct d i = Some p \<Longrightarrow> p_id p = i"
  unfolding findUniqueProduct_def by (rule find_key_id [where key = p_id])

lemma reservation_after_set_status:
  "findUniqueReservation (apply_write (ReservationSetStatus ids st) d) j =
     map_option (\<lambda>r. if r_id r \<in> set ids then r\<lparr>status := st\<rparr> else r)
       (findUniqueReservation d j)"
  unfolding findUniqueReservation_def
  by (simp add: find_map_key [where key = r_id])

lemma reservation_after_increment:
  "findUniqueReservation (apply_write (ProductIncrement pid n) d) j = findUniqueReservation d j"
  by (simp add: findUniqueReservation_def)

lemma reservation_after_create:
  "findUniqueReservation (apply_write (ReservationCreate r) d) j =
     (case findUniqueReservation d j of
        Some r' \<Rightarrow> Some r'
      | None \<Rightarrow> if r_id r = j then Some r else None)"
  by (simp add: findUniqueReservation_def find_snoc)

lemma product_after_increment:
  "findUniqueProduct (apply_write (ProductIncrement pid n) d) j =
     map_option (\<lambda>p. if p_id p = pid then p\<lparr>availableStock := availableStock p + n\<rparr> else p)
       (findUniqueProduct d j)"
  unfolding findUniqueProduct_def
  by (simp add: find_map_key [where key = p_id])

lemma product_after_set_status:
  "findUniqueProduct (apply_write (ReservationSetStatus ids st) d) j = findUniqueProduct d j"
  by (simp add: findUniqueProduct_def)

lemma product_after_create:
  "findUniqueProduct (apply_write (ReservationCreate r) d) j = findUniqueProduct d j"
  by (simp add: findUniqueProduct_def)

declare apply_write.simps [simp del]

section \<open>Transactions\<close>

lemma transaction_start: "tx_view \<lparr>outer = s, pending = []\<rparr> = database s"
  by (simp add: tx_view_def)

lemma outer_tx_write: "outer (tx_write t w) = outer t"
  by (simp add: tx_write_def)

lemma tx_view_tx_write: "tx_view (tx_write t w) = apply_write w (tx_view t)"
  by (simp add: tx_view_def tx_write_def)

lemma product_increment_accepted:
  "findUniqueProduct d pid = Some p \<Longrightarrow> fitsInt4 n \<Longrightarrow> fitsInt4 (availableStock p + n) \<Longrightarrow>
   product_increment d pid n = Inr (ProductIncrement pid n)"
  by (simp add: product_increment_def)

lemma product_increment_refused:
  "findUniqueProduct d pid = Some p \<Longrightarrow> \<not> (fitsInt4 n \<and> fitsInt4 (availableStock p + n)) \<Longrightarrow>
   product_increment d pid n = Inl IntegerOutOfRange"
  by (simp add: product_increment_def)

lemma product_increment_missing:
  "findUniqueProduct d pid = None \<Longrightarrow> product_increment d pid n = Inl RecordNotFound"
  by (simp add: product_increment_def)

lemma product_increment_Inr:
  "product_increment d pid n = Inr w \<Longrightarrow>
   w = ProductIncrement pid n \<and> fitsInt4 n \<and>
   (\<exists>p. findUniqueProduct d pid = Some p \<and> fitsInt4 (availableStock p + n))"
  by (auto simp: product_increment_def split: option.splits if_splits)

lemma product_decrement_Inr:
  "product_decrement d pid n = Inr w \<Longrightarrow>
   w = ProductIncrement pid (- n) \<and> fitsInt4 n \<and>
   (\<exists>p. findUniqueProduct d pid = Some p \<and> fitsInt4 (availableStock p - n))"
  by (auto simp: product_decrement_def split: option.splits if_splits)

lemma tx_product_update_outer: "tx_product_update t pid n = Inr t' \<Longrightarrow> outer t' = outer t"
  by (auto simp: tx_product_update_def outer_tx_write split: sum.splits)

lemma tx_product_decrement_outer: "tx_product_decrement t pid n = Inr t' \<Longrightarrow> outer t' = outer t"
  by (auto simp: tx_product_decrement_def outer_tx_write split: sum.splits)

lemma tx_reservation_create_outer:
  "tx_reservation_create t r = Inr (r', t') \<Longrightarrow> outer t' = outer t"
  by (auto simp: tx_reservation_create_def outer_tx_write split: option.splits if_splits)

lemma expireReservationsAndRestoreStock_outer:
  "expireReservationsAndRestoreStock t rs pid = Inr t' \<Longrightarrow> outer t' = outer t"
  by (auto simp: expireReservationsAndRestoreStock_def outer_tx_write
      dest!: tx_product_update_outer split: if_splits)

text \<open>A transaction whose callback throws leaves what the outer client has made of the state.\<close>

lemma transaction_error:
  "fst (transaction body s) = Inl e \<Longrightarrow>
   snd (transaction body s) = outer (snd (body \<lparr>outer = s, pending = []\<rparr>))"
  by (auto simp: transaction_def split: prod.splits sum.splits)

section \<open>What \<open>expire\<close> does\<close>

lemma expire_missing:
  "findUniqueReservation (database s) i = None \<Longrightarrow> expire i s = (Inr (), s)"
  by (simp add: expire_def transaction_def expire_body_def tx_view_def)

lemma expire_not_active:
  "findUniqueReservation (database s) i = Some r \<Longrightarrow> status r \<noteq> ACTIVE \<Longrightarrow>
   expire i s = (Inr (), s)"
  by (simp add: expire_def transaction_def expire_body_def tx_view_def)

lemma expire_active:
  "findUniqueReservation (database s) i = Some r \<Longrightarrow> status r = ACTIVE \<Longrightarrow>
   findUniqueProduct (database s) (productId r) = Some p \<Longrightarrow>
   fitsInt4 (quantity r) \<Longrightarrow> fitsInt4 (availableStock p + quantity r) \<Longrightarrow>
   expire i s =
     (Inr (), s\<lparr>database := apply_write (ReservationSetStatus [i] EXPIRED)
                  (apply_write (ProductIncrement (productId r) (quantity r)) (database s))\<rparr>)"
  by (simp add: expire_def transaction_def expire_body_def tx_view_def tx_reservation_update_def
        tx_write_def incrementStock_def product_increment_accepted)

lemma expire_active_no_product:
  "findUniqueReservation (database s) i = Some r \<Longrightarrow> status r = ACTIVE \<Longrightarrow>
   findUniqueProduct (database s) (productId r) = None \<Longrightarrow>
   expire i s = (Inl RecordNotFound, s)"
  by (simp add: expire_def transaction_def expire_body_def tx_view_def tx_reservation_update_def
        tx_write_def incrementStock_def product_increment_missing)

text \<open>
  When the restored stock would not fit its column the store refuses the increment:
  \<^verbatim>\<open>expire\<close> throws, the status write is rolled back and the hold stays ACTIVE.
\<close>

lemma expire_active_refused:
  "findUniqueReservation (database s) i = Some r \<Longrightarrow> status r = ACTIVE \<Longrightarrow>
   findUniqueProduct (database s) (productId r) = Some p \<Longrightarrow>
   \<not> (fitsInt4 (quantity r) \<and> fitsInt4 (availableStock p + quantity r)) \<Longrightarrow>
   expire i s = (Inl IntegerOutOfRange, s)"
  by (simp add: expire_def transaction_def expire_body_def tx_view_def tx_reservation_update_def
        tx_write_def incrementStock_def product_increment_refused)

lemma expire_at_full_stock:
  "expire ''r1'' shopFullStock = (Inl IntegerOutOfRange, shopFullStock)"
  by code_simp

lemma incrementStock_Inr: "incrementStock s pid n = Inr s' \<Longrightarrow>
   s' = s\<lparr>database := apply_write (ProductIncrement pid n) (database s)\<rparr>"
  by (auto simp: incrementStock_def dest: product_increment_Inr split: sum.splits)

lemma expire_error_state: "fst (expire i s) = Inl e \<Longrightarrow> snd (expire i s) = s"
  by (auto simp: expire_def transaction_def expire_body_def tx_reservation_update_def
      tx_view_def tx_write_def split: option.splits if_splits sum.splits)

section \<open>What \<open>complete\<close> does\<close>

text \<open>
  Past the deadline the callback writes EXPIRED through \<^verbatim>\<open>tx\<close>, increments the stock
  through the outer client and throws: the status write is dropped with the transaction,
  the increment stays.
\<close>

lemma complete_past_deadline:
  "findUniqueReservation (database s) i = Some r \<Longrightarrow> status r = ACTIVE \<Longrightarrow>
   expiresAt r < now \<Longrightarrow> findUniqueProduct (database s) (productId r) = Some p \<Longrightarrow>
   fitsInt4 (quantity r) \<Longrightarrow> fitsInt4 (availableStock p + quantity r) \<Longrightarrow>
   complete now i s =
     (Inl ReservationHasExpired,
      s\<lparr>database := apply_write (ProductIncrement (productId r) (quantity r)) (database s)\<rparr>)"
  by (simp add: complete_def transaction_def complete_body_def tx_view_def
        tx_reservation_update_def tx_write_def incrementStock_def product_increment_accepted)

lemma complete_past_deadline_refused:
  "findUniqueReservation (database s) i = Some r \<Longrightarrow> status r = ACTIVE \<Longrightarrow>
   expiresAt r < now \<Longrightarrow> findUniqueProduct (database s) (productId r) = Some p \<Longrightarrow>
   \<not> (fitsInt4 (quantity r) \<and> fitsInt4 (availableStock p + quantity r)) \<Longrightarrow>
   complete now i s = (Inl IntegerOutOfRange, s)"
  by (simp add: complete_def transaction_def complete_body_def tx_view_def
        tx_reservation_update_def tx_write_def incrementStock_def product_increment_refused)

lemma complete_past_deadline_no_product:
  "findUniqueReservation (database s) i = Some r \<Longrightarrow> status r = ACTIVE \<Longrightarrow>
   expiresAt r < now \<Longrightarrow> findUniqueProduct (database s) (productId r) = None \<Longrightarrow>
   complete now i s = (Inl RecordNotFound, s)"
  by (simp add: complete_def transaction_def complete_body_def tx_view_def
        tx_reservation_update_def tx_write_def incrementStock_def product_increment_missing)

lemma complete_in_time:
  "findUniqueReservation (database s) i = Some r \<Longrightarrow> status r = ACTIVE \<Longrightarrow>
   now \<le> expiresAt r \<Longrightarrow>
   complete now i s =
     (Inr (r\<lparr>status := COMPLETED\<rparr>),
      \<lparr>database = apply_write (ReservationSetStatus [i] COMPLETED) (database s),
       expirationQueue = removeExistingJob (expirationQueue s) (expireKey i)\<rparr>)"
  by (simp add: complete_def transaction_def complete_body_def tx_view_def
        tx_reservation_update_def tx_write_def)

lemma complete_error_state:
  "fst (complete now i s) = Inl e \<Longrightarrow> e \<noteq> ReservationHasExpired \<Longrightarrow>
   snd (complete now i s) = s"
  by (auto simp: complete_def transaction_def complete_body_def tx_reservation_update_def
      tx_view_def tx_write_def split: option.splits if_splits sum.splits)

section \<open>What \<open>create\<close> does\<close>

lemma create_body_outer: "outer (snd (create_body now dateNow newId pid qty t)) = outer t"
proof -
  define ex where "ex = findExpiredOfProduct (tx_view t) pid now"
  define step1 where
    "step1 = (if length ex > 0 then expireReservationsAndRestoreStock t ex pid else Inr t)"
  define r where
    "r = \<lparr>r_id = newId, productId = pid, quantity = qty, status = ACTIVE,
           expiresAt = dateNow + RESERVATION_DURATION_MS\<rparr>"
  have body: "create_body now dateNow newId pid qty t =
     (case step1 of
        Inl e \<Rightarrow> (Inl e, t)
      | Inr t1 \<Rightarrow>
          (case findUniqueProduct (tx_view t1) pid of
             None \<Rightarrow> (Inl (ProductNotFound pid), t1)
           | Some product \<Rightarrow>
               if availableStock product < qty
               then (Inl (InsufficientStock (availableStock product) qty), t1)
               else
                 (case tx_reservation_create t1 r of
                    Inl e \<Rightarrow> (Inl e, t1)
                  | Inr (newReservation, t2) \<Rightarrow>
                      (case tx_product_decrement t2 pid qty of
                         Inl e \<Rightarrow> (Inl e, t2)
                       | Inr t3 \<Rightarrow> (Inr newReservation, t3)))))"
    unfolding create_body_def Let_def step1_def ex_def r_def by (rule refl)
  show ?thesis
  proof (cases step1)
    case (Inl e)
    then show ?thesis by (simp add: body)
  next
    case (Inr t1)
    then have o1: "outer t1 = outer t"
      by (auto simp: step1_def dest: expireReservationsAndRestoreStock_outer split: if_splits)
    show ?thesis
    proof (cases "tx_reservation_create t1 r")
      case (Inl e)
      with Inr o1 show ?thesis by (simp add: body split: option.split)
    next
      case created: (Inr res)
      obtain newReservation t2 where res: "res = (newReservation, t2)" by (cases res)
      from created res have o2: "outer t2 = outer t1"
        by (auto dest: tx_reservation_create_outer)
      show ?thesis
      proof (cases "tx_product_decrement t2 pid qty")
        case (Inl e)
        with Inr created res o1 o2 show ?thesis by (simp add: body split: option.split)
      next
        case updated: (Inr t3)
        then have "outer t3 = outer t2" by (rule tx_product_decrement_outer)
        with Inr created res updated o1 o2 show ?thesis by (simp add: body split: option.split)
      qed
    qed
  qed
qed

text \<open>
  With the stock at the largest value of its column, the lazy expiration of the stale hold is
  refused by the store and \<^verbatim>\<open>create\<close> throws, whatever the requested quantity.
\<close>

lemma create_at_full_stock:
  "create 2000 2000 2000 ''r2'' \<lparr>dto_productId = ''p1'', dto_quantity = 1\<rparr> shopFullStock =
     (Inl IntegerOutOfRange, shopFullStock)"
  by code_simp

lemma create_error_state:
  assumes "fst (create now dateNow schedNow newId dto s) = Inl e"
  shows "snd (create now dateNow schedNow newId dto s) = s"
proof -
  let ?body = "create_body now dateNow newId (dto_productId dto) (dto_quantity dto)"
  from assms have failed: "fst (transaction ?body s) = Inl e"
    by (auto simp: create_def split: prod.splits sum.splits)
  then have "snd (transaction ?body s) = s"
    by (simp add: transaction_error create_body_outer)
  with failed show ?thesis
    by (auto simp: create_def split: prod.splits sum.splits)
qed

lemma create_body_insufficient:
  assumes "findUniqueProduct (database s) pid = Some p"
    and "fitsInt4 (totalQuantity (findExpiredOfProduct (database s) pid now))"
    and "fitsInt4 (availableStock p + totalQuantity (findExpiredOfProduct (database s) pid now))"
    and "availableStock p + totalQuantity (findExpiredOfProduct (database s) pid now) < qty"
  shows "fst (create_body now dateNow newId pid qty \<lparr>outer = s, pending = []\<rparr>) =
           Inl (InsufficientStock
                  (availableStock p + totalQuantity (findExpiredOfProduct (database s) pid now)) qty)"
proof (cases "findExpiredOfProduct (database s) pid now = []")
  case True
  with assms show ?thesis
    by (simp add: create_body_def Let_def transaction_start totalQuantity_def)
next
  case False
  with assms findUniqueProduct_id [OF assms(1)] show ?thesis
    by (simp add: create_body_def Let_def transaction_start expireReservationsAndRestoreStock_def
        tx_product_update_def product_increment_def tx_view_tx_write product_after_set_status
        product_after_increment)
qed

lemma create_body_success:
  assumes "findUniqueProduct (database s) pid = Some p"
    and "fitsInt4 (totalQuantity (findExpiredOfProduct (database s) pid now))"
    and "fitsInt4 (availableStock p + totalQuantity (findExpiredOfProduct (database s) pid now))"
    and "1 \<le> qty"
    and "qty \<le> availableStock p + totalQuantity (findExpiredOfProduct (database s) pid now)"
    and "findUniqueReservation (database s) newId = None"
  shows "\<exists>t. create_body now dateNow newId pid qty \<lparr>outer = s, pending = []\<rparr> =
           (Inr \<lparr>r_id = newId, productId = pid, quantity = qty, status = ACTIVE,
                 expiresAt = dateNow + RESERVATION_DURATION_MS\<rparr>, t) \<and>
           outer t = s \<and>
           findUniqueProduct (tx_view t) pid =
             Some (p\<lparr>availableStock := availableStock p +
                       totalQuantity (findExpiredOfProduct (database s) pid now) - qty\<rparr>) \<and>
           findUniqueReservation (tx_view t) newId =
             Some \<lparr>r_id = newId, productId = pid, quantity = qty, status = ACTIVE,
                   expiresAt = dateNow + RESERVATION_DURATION_MS\<rparr>"
proof -
  let ?total = "totalQuantity (findExpiredOfProduct (database s) pid now)"
  from assms(3,4,5) have fits: "fitsInt4 qty" "fitsInt4 (availableStock p + ?total - qty)"
    by (simp_all add: fitsInt4_def)
  show ?thesis
  proof (cases "findExpiredOfProduct (database s) pid now = []")
    case True
    with assms fits findUniqueProduct_id [OF assms(1)] show ?thesis
      by (simp add: create_body_def Let_def transaction_start totalQuantity_def
          tx_reservation_create_def tx_product_update_def tx_product_decrement_def
          product_increment_def product_decrement_def tx_view_tx_write
          outer_tx_write product_after_create product_after_increment
          reservation_after_increment reservation_after_create)
  next
    case False
    with assms fits findUniqueProduct_id [OF assms(1)] show ?thesis
      by (simp add: create_body_def Let_def transaction_start expireReservationsAndRestoreStock_def
          tx_reservation_create_def tx_product_update_def tx_product_decrement_def
          product_increment_def product_decrement_def tx_view_tx_write
          outer_tx_write product_after_create product_after_increment product_after_set_status
          reservation_after_increment reservation_after_set_status reservation_after_create)
  qed
qed

section \<open>What the recovery loop does with one reservation\<close>

lemma find_None_filter_not: "find P xs = None \<Longrightarrow> filter (\<lambda>x. \<not> P x) xs = xs"
  by (induction xs) (auto split: if_splits)

lemma find_filter_not: "find P (filter (\<lambda>x. \<not> P x) xs) = None"
  by (induction xs) auto

lemma removeExistingJob_online:
  assumes "online q"
  shows "removeExistingJob q k = q\<lparr>jobs := filter (\<lambda>j. jobId j \<noteq> k) (jobs q)\<rparr>"
proof (cases "find (\<lambda>j. jobId j = k) (jobs q)")
  case None
  then have "filter (\<lambda>j. jobId j \<noteq> k) (jobs q) = jobs q"
    by (rule find_None_filter_not)
  with assms None show ?thesis
    by (simp add: removeExistingJob_def getJob_def)
next
  case (Some j)
  with assms show ?thesis
    by (simp add: removeExistingJob_def getJob_def removeJob_def)
qed

lemma addJob_new:
  "online q \<Longrightarrow> find (\<lambda>j'. jobId j' = jobId j) (jobs q) = None \<Longrightarrow>
   addJob q j = Inr (q\<lparr>jobs := jobs q @ [j]\<rparr>)"
  by (simp add: addJob_def)

lemma recoverLoop_past:
  "expiresAt r < now \<Longrightarrow> fst (expire (r_id r) s) = Inr () \<Longrightarrow>
   recoverLoop now (r # rest) s = recoverLoop now rest (snd (expire (r_id r) s))"
  by (cases "expire (r_id r) s") (auto split: sum.splits)

lemma recoverLoop_future:
  assumes "now < expiresAt r" and "online (expirationQueue s)"
  shows "recoverLoop now (r # rest) s =
     recoverLoop now rest
       (s\<lparr>expirationQueue := (expirationQueue s)\<lparr>jobs :=
            filter (\<lambda>j. jobId j \<noteq> expireKey (r_id r)) (jobs (expirationQueue s)) @
            [expirationJob (r_id r) (expiresAt r - now)]\<rparr>\<rparr>)"
proof -
  let ?k = "expireKey (r_id r)"
  let ?q1 = "(expirationQueue s)\<lparr>jobs := filter (\<lambda>j. jobId j \<noteq> ?k) (jobs (expirationQueue s))\<rparr>"
  have q1: "removeExistingJob (expirationQueue s) ?k = ?q1"
    using assms(2) by (rule removeExistingJob_online)
  have "find (\<lambda>j'. jobId j' = jobId (expirationJob (r_id r) (expiresAt r - now))) (jobs ?q1) = None"
    by (simp add: expirationJob_def find_filter_not)
  with assms(2) have "addJob ?q1 (expirationJob (r_id r) (expiresAt r - now)) =
      Inr (?q1\<lparr>jobs := jobs ?q1 @ [expirationJob (r_id r) (expiresAt r - now)]\<rparr>)"
    by (intro addJob_new) simp_all
  with assms(1) q1 show ?thesis by (simp add: Let_def)
qed

text \<open>A reservation whose deadline is the very instant of the recovery is passed over.\<close>

lemma recoverLoop_boundary:
  "expiresAt r = now \<Longrightarrow> recoverLoop now (r # rest) s = recoverLoop now rest s"
  by simp

section \<open>The stock never goes negative\<close>

lemma lazy_step:
  assumes "(if length (findExpiredOfProduct (database s) pid now) > 0
            then expireReservationsAndRestoreStock \<lparr>outer = s, pending = []\<rparr>
                   (findExpiredOfProduct (database s) pid now) pid
            else Inr \<lparr>outer = s, pending = []\<rparr>) = Inr t1"
  shows "tx_view t1 = afterLazyExpiration (database s) pid now \<and> outer t1 = s"
proof (cases "findExpiredOfProduct (database s) pid now = []")
  case True
  with assms show ?thesis
    by (auto simp: afterLazyExpiration_def Let_def transaction_start)
next
  case False
  with assms show ?thesis
    by (auto simp: afterLazyExpiration_def Let_def expireReservationsAndRestoreStock_def
        tx_product_update_def tx_view_tx_write outer_tx_write transaction_start
        dest!: product_increment_Inr split: sum.splits)
qed

lemma create_body_result:
  assumes "create_body now dateNow newId pid qty \<lparr>outer = s, pending = []\<rparr> = (Inr r, t)"
  shows "\<exists>product. findUniqueProduct (afterLazyExpiration (database s) pid now) pid = Some product \<and>
           qty \<le> availableStock product \<and> quantity r = qty \<and> outer t = s \<and>
           tx_view t = apply_write (ProductIncrement pid (- qty))
                         (apply_write (ReservationCreate r) (afterLazyExpiration (database s) pid now))"
proof -
  let ?t0 = "\<lparr>outer = s, pending = []\<rparr>"
  define step1 where
    "step1 = (if length (findExpiredOfProduct (database s) pid now) > 0
              then expireReservationsAndRestoreStock ?t0 (findExpiredOfProduct (database s) pid now) pid
              else Inr ?t0)"
  define r0 where
    "r0 = \<lparr>r_id = newId, productId = pid, quantity = qty, status = ACTIVE,
           expiresAt = dateNow + RESERVATION_DURATION_MS\<rparr>"
  have body: "create_body now dateNow newId pid qty ?t0 =
     (case step1 of
        Inl e \<Rightarrow> (Inl e, ?t0)
      | Inr t1 \<Rightarrow>
          (case findUniqueProduct (tx_view t1) pid of
             None \<Rightarrow> (Inl (ProductNotFound pid), t1)
           | Some product \<Rightarrow>
               if availableStock product < qty
               then (Inl (InsufficientStock (availableStock product) qty), t1)
               else
                 (case tx_reservation_create t1 r0 of
                    Inl e \<Rightarrow> (Inl e, t1)
                  | Inr (newReservation, t2) \<Rightarrow>
                      (case tx_product_decrement t2 pid qty of
                         Inl e \<Rightarrow> (Inl e, t2)
                       | Inr t3 \<Rightarrow> (Inr newReservation, t3)))))"
    unfolding create_body_def Let_def step1_def r0_def transaction_start by (rule refl)
  from assms body obtain t1 where s1: "step1 = Inr t1"
    by (cases step1) auto
  then have v1: "tx_view t1 = afterLazyExpiration (database s) pid now" and o1: "outer t1 = s"
    using lazy_step [of s pid now t1] by (simp_all add: step1_def)
  from assms body s1 obtain product where
    p: "findUniqueProduct (tx_view t1) pid = Some product"
    by (cases "findUniqueProduct (tx_view t1) pid") auto
  from assms body s1 p have enough: "qty \<le> availableStock product"
    by (cases "availableStock product < qty") auto
  from assms body s1 p enough obtain t2 where
    c: "tx_reservation_create t1 r0 = Inr (r0, t2)" and v2: "tx_view t2 = apply_write (ReservationCreate r0) (tx_view t1)"
    and o2: "outer t2 = outer t1"
    by (auto simp: tx_reservation_create_def tx_view_tx_write outer_tx_write
        split: option.splits if_splits)
  from assms body s1 p enough c have
    u: "tx_product_decrement t2 pid qty = Inr t" and rr: "r = r0"
    by (auto split: sum.splits)
  from u have v3: "tx_view t = apply_write (ProductIncrement pid (- qty)) (tx_view t2)"
    and o3: "outer t = outer t2"
    by (auto simp: tx_product_decrement_def tx_view_tx_write outer_tx_write
        dest!: product_decrement_Inr split: sum.splits)
  from p enough v1 v2 v3 o1 o2 o3 rr show ?thesis
    by (simp add: r0_def)
qed

lemma create_database:
  assumes "fst (create now dateNow schedNow newId dto s) = Inr r"
  shows "\<exists>product.
           findUniqueProduct (afterLazyExpiration (database s) (dto_productId dto) now)
             (dto_productId dto) = Some product \<and>
           dto_quantity dto \<le> availableStock product \<and> quantity r = dto_quantity dto \<and>
           database (snd (create now dateNow schedNow newId dto s)) =
             apply_write (ProductIncrement (dto_productId dto) (- dto_quantity dto))
               (apply_write (ReservationCreate r)
                  (afterLazyExpiration (database s) (dto_productId dto) now))"
proof -
  let ?body = "create_body now dateNow newId (dto_productId dto) (dto_quantity dto)"
  obtain res t where b: "?body \<lparr>outer = s, pending = []\<rparr> = (res, t)"
    by (cases "?body \<lparr>outer = s, pending = []\<rparr>")
  with assms have res: "res = Inr r"
    by (cases res) (simp_all add: create_def transaction_def)
  from create_body_result [OF b [unfolded res]] b res show ?thesis
    by (auto simp: create_def transaction_def)
qed

lemma quantities_after_set_status:
  "list_all (\<lambda>r. 0 \<le> quantity r) rs \<Longrightarrow>
   list_all (\<lambda>r. 0 \<le> quantity r) (map (\<lambda>r. if r_id r \<in> set ids then r\<lparr>status := st\<rparr> else r) rs)"
  by (induction rs) simp_all

lemma p_id_after_increment:
  "map p_id (map (\<lambda>p. if p_id p = pid then p\<lparr>availableStock := availableStock p + n\<rparr> else p) ps) =
     map p_id ps"
  by (induction ps) simp_all

lemma stock_after_increment:
  "list_all (\<lambda>p. 0 \<le> availableStock p) ps \<Longrightarrow> 0 \<le> n \<Longrightarrow>
   list_all (\<lambda>p. 0 \<le> availableStock p)
     (map (\<lambda>p. if p_id p = pid then p\<lparr>availableStock := availableStock p + n\<rparr> else p) ps)"
  by (induction ps) simp_all

lemma stock_after_decrement:
  "list_all (\<lambda>p. 0 \<le> availableStock p) ps \<Longrightarrow>
   (\<And>p. p \<in> set ps \<Longrightarrow> p_id p = pid \<Longrightarrow> n \<le> availableStock p) \<Longrightarrow>
   list_all (\<lambda>p. 0 \<le> availableStock p)
     (map (\<lambda>p. if p_id p = pid then p\<lparr>availableStock := availableStock p + (- n)\<rparr> else p) ps)"
  by (induction ps) simp_all

lemma wellFormed_set_status:
  "wellFormed d \<Longrightarrow> wellFormed (apply_write (ReservationSetStatus ids st) d)"
  unfolding wellFormed_def apply_write.simps
  by (simp add: quantities_after_set_status del: map_map)

lemma wellFormed_create:
  "wellFormed d \<Longrightarrow> 0 \<le> quantity r \<Longrightarrow> wellFormed (apply_write (ReservationCreate r) d)"
  by (simp add: wellFormed_def apply_write.simps)

lemma wellFormed_increment:
  assumes "wellFormed d" and "0 \<le> n"
  shows "wellFormed (apply_write (ProductIncrement pid n) d)"
  using assms stock_after_increment [of "products d" n pid]
  unfolding wellFormed_def apply_write.simps
  by (simp add: p_id_after_increment del: map_map)

lemma find_distinct_key:
  "distinct (map key xs) \<Longrightarrow> x \<in> set xs \<Longrightarrow> find (\<lambda>y. key y = key x) xs = Some x"
  by (induction xs) (auto simp: rev_image_eqI)

lemma wellFormed_decrement:
  assumes "wellFormed d" and "findUniqueProduct d pid = Some product"
    and "n \<le> availableStock product"
  shows "wellFormed (apply_write (ProductIncrement pid (- n)) d)"
proof -
  have "n \<le> availableStock p" if "p \<in> set (products d)" and "p_id p = pid" for p
  proof -
    from assms(1) that have "findUniqueProduct d pid = Some p"
      unfolding findUniqueProduct_def wellFormed_def
      using find_distinct_key [where key = p_id and x = p] by auto
    with assms(2,3) show ?thesis by simp
  qed
  then have "list_all (\<lambda>p. 0 \<le> availableStock p)
     (map (\<lambda>p. if p_id p = pid then p\<lparr>availableStock := availableStock p + (- n)\<rparr> else p)
        (products d))"
    using assms(1) by (intro stock_after_decrement) (simp_all add: wellFormed_def)
  with assms(1) show ?thesis
    unfolding wellFormed_def apply_write.simps
    by (simp add: p_id_after_increment del: map_map)
qed

lemma find_Some_set: "find P xs = Some x \<Longrightarrow> x \<in> set xs"
  by (induction xs) (auto split: if_splits)

lemma totalQuantity_sum: "totalQuantity rs = sum_list (map quantity rs)"
proof -
  have "foldl (\<lambda>sum res. sum + quantity res) a rs = a + sum_list (map quantity rs)" for a
    by (induction rs arbitrary: a) simp_all
  then show ?thesis by (simp add: totalQuantity_def)
qed

lemma totalQuantity_nonneg:
  "list_all (\<lambda>r. 0 \<le> quantity r) rs \<Longrightarrow> 0 \<le> totalQuantity rs"
  unfolding totalQuantity_sum by (induction rs) simp_all

lemma wellFormed_afterLazyExpiration:
  assumes "wellFormed d"
  shows "wellFormed (afterLazyExpiration d pid now)"
proof -
  from assms have "list_all (\<lambda>r. 0 \<le> quantity r) (findExpiredOfProduct d pid now)"
    by (simp add: wellFormed_def findExpiredOfProduct_def list_all_iff)
  then have "0 \<le> totalQuantity (findExpiredOfProduct d pid now)"
    by (rule totalQuantity_nonneg)
  with assms show ?thesis
    by (simp add: afterLazyExpiration_def Let_def wellFormed_increment wellFormed_set_status)
qed

lemma wellFormed_create_call:
  assumes "wellFormed (database s)" and "1 \<le> dto_quantity dto"
  shows "wellFormed (database (snd (create now dateNow schedNow newId dto s)))"
proof (cases "fst (create now dateNow schedNow newId dto s)")
  case (Inl e)
  then have "snd (create now dateNow schedNow newId dto s) = s"
    by (rule create_error_state)
  with assms(1) show ?thesis by simp
next
  case (Inr r)
  from create_database [OF Inr] obtain product where
    p: "findUniqueProduct (afterLazyExpiration (database s) (dto_productId dto) now)
          (dto_productId dto) = Some product"
    and enough: "dto_quantity dto \<le> availableStock product"
    and q: "quantity r = dto_quantity dto"
    and d: "database (snd (create now dateNow schedNow newId dto s)) =
             apply_write (ProductIncrement (dto_productId dto) (- dto_quantity dto))
               (apply_write (ReservationCreate r)
                  (afterLazyExpiration (database s) (dto_productId dto) now))"
    by blast
  have "wellFormed (apply_write (ReservationCreate r)
      (afterLazyExpiration (database s) (dto_productId dto) now))"
    using assms q by (intro wellFormed_create wellFormed_afterLazyExpiration) simp_all
  moreover have "findUniqueProduct (apply_write (ReservationCreate r)
      (afterLazyExpiration (database s) (dto_productId dto) now)) (dto_productId dto) = Some product"
    using p by (simp add: product_after_create)
  ultimately show ?thesis
    unfolding d using enough by (rule wellFormed_decrement)
qed

lemma wellFormed_expire_call:
  assumes "wellFormed (database s)"
  shows "wellFormed (database (snd (expire i s)))"
proof (cases "findUniqueReservation (database s) i")
  case None
  with assms show ?thesis by (simp add: expire_missing)
next
  case found: (Some r)
  then have "r \<in> set (reservations (database s))"
    unfolding findUniqueReservation_def by (rule find_Some_set)
  with assms have q: "0 \<le> quantity r"
    by (simp add: wellFormed_def list_all_iff)
  show ?thesis
  proof (cases "status r = ACTIVE")
    case False
    with found assms show ?thesis by (simp add: expire_not_active)
  next
    case True
    show ?thesis
    proof (cases "findUniqueProduct (database s) (productId r)")
      case None
      with found True assms show ?thesis by (simp add: expire_active_no_product)
    next
      case (Some p)
      show ?thesis
      proof (cases "fitsInt4 (quantity r) \<and> fitsInt4 (availableStock p + quantity r)")
        case True
        with found \<open>status r = ACTIVE\<close> Some assms q show ?thesis
          by (simp add: expire_active wellFormed_increment wellFormed_set_status)
      next
        case False
        with found \<open>status r = ACTIVE\<close> Some assms show ?thesis
          by (simp add: expire_active_refused)
      qed
    qed
  qed
qed

lemma wellFormed_complete_call:
  assumes "wellFormed (database s)"
  shows "wellFormed (database (snd (complete now i s)))"
proof (cases "findUniqueReservation (database s) i")
  case None
  with assms show ?thesis
    by (simp add: complete_def transaction_def complete_body_def transaction_start)
next
  case found: (Some r)
  then have "r \<in> set (reservations (database s))"
    unfolding findUniqueReservation_def by (rule find_Some_set)
  with assms have q: "0 \<le> quantity r"
    by (simp add: wellFormed_def list_all_iff)
  show ?thesis
  proof (cases "status r = ACTIVE")
    case False
    with found assms show ?thesis
      by (simp add: complete_def transaction_def complete_body_def transaction_start)
  next
    case True
    show ?thesis
    proof (cases "expiresAt r < now")
      case False
      with found True assms show ?thesis
        by (simp add: complete_in_time wellFormed_set_status)
    next
      case late: True
      show ?thesis
      proof (cases "findUniqueProduct (database s) (productId r)")
        case None
        with found True late assms show ?thesis
          by (simp add: complete_past_deadline_no_product)
      next
        case (Some p)
        show ?thesis
        proof (cases "fitsInt4 (quantity r) \<and> fitsInt4 (availableStock p + quantity r)")
          case True
          with found \<open>status r = ACTIVE\<close> late Some assms q show ?thesis
            by (simp add: complete_past_deadline wellFormed_increment)
        next
          case False
          with found \<open>status r = ACTIVE\<close> late Some assms show ?thesis
            by (simp add: complete_past_deadline_refused)
        qed
      qed
    qed
  qed
qed

lemma wellFormed_step:
  "wellFormed (database s) \<Longrightarrow> validOperation op \<Longrightarrow> wellFormed (database (step s op))"
  by (cases op) (simp_all add: wellFormed_create_call wellFormed_complete_call wellFormed_expire_call)

lemma wellFormed_run:
  "wellFormed (database s) \<Longrightarrow> list_all validOperation ops \<Longrightarrow> wellFormed (database (run ops s))"
  unfolding run_def by (induction ops arbitrary: s) (simp_all add: wellFormed_step)

text \<open>
  From a well-formed store, after any sequence of valid calls, no product has a negative
  stock: the only decrement is the one of \<^verbatim>\<open>create\<close>, made after the stock check.
\<close>

lemma stock_never_negative:
  assumes "wellFormed (database s)" and "list_all validOperation ops"
    and "findUniqueProduct (database (run ops s)) pid = Some p"
  shows "0 \<le> availableStock p"
proof -
  from assms(3) have "p \<in> set (products (database (run ops s)))"
    unfolding findUniqueProduct_def by (rule find_Some_set)
  with wellFormed_run [OF assms(1,2)] show ?thesis
    by (simp add: wellFormed_def list_all_iff)
qed


section \<open>No overselling\<close>

text \<open>
  C1. Claimed: from a product with initial stock S, after every sequence of create, complete
  and expire calls the quantities of the product's ACTIVE and COMPLETED reservations sum to
  at most S. The code does not keep this. A product starts with one unit and no reservation.
  A hold of one unit is created at time 0 (deadline 120000); \<^verbatim>\<open>complete\<close> is called on it at
  120001 and throws "expired" after incrementing the stock through the outer client, while
  the hold stays ACTIVE; two more creates at 120002 and 120003 each reserve one unit (the
  first of them expires the old hold and restores its unit a second time). Two units are then
  held by ACTIVE reservations against an initial stock of one.
\<close>

theorem late_complete_leads_to_overselling:
  "findUniqueProduct (database shopOneLeft) ''p1'' = Some \<lparr>p_id = ''p1'', availableStock = 1\<rparr> \<and>
   reservations (database shopOneLeft) = [] \<and>
   heldQuantity (database shopOneLeft) ''p1'' = 0 \<and>
   heldQuantity (database (run oversellingRun shopOneLeft)) ''p1'' = 2 \<and>
   map status (reservations (database (run oversellingRun shopOneLeft))) = [EXPIRED, ACTIVE, ACTIVE]"
  by code_simp

section \<open>Completing after the deadline\<close>

text \<open>
  C2. Claimed: \<^verbatim>\<open>complete\<close> on an ACTIVE reservation whose deadline has passed leaves
  it EXPIRED, restores its quantity once and returns the "expired" error. The code returns the
  error and increments the stock, but the reservation is still ACTIVE afterwards: the status
  write went through \<^verbatim>\<open>tx\<close> and the exception thrown inside the callback rolls it back,
  while the increment went through the outer client and stays. A second call at 120002
  increments the stock again (3, then 5, then 7).
\<close>

theorem complete_after_deadline_stays_active:
  "status lateHold = ACTIVE \<and> expiresAt lateHold < 120001 \<and>
   fst (complete 120001 ''r1'' shopLateHold) = Inl ReservationHasExpired \<and>
   findUniqueReservation (database (snd (complete 120001 ''r1'' shopLateHold))) ''r1'' = Some lateHold \<and>
   findUniqueProduct (database (snd (complete 120001 ''r1'' shopLateHold))) ''p1'' =
     Some \<lparr>p_id = ''p1'', availableStock = 5\<rparr> \<and>
   findUniqueProduct
     (database (snd (complete 120002 ''r1'' (snd (complete 120001 ''r1'' shopLateHold))))) ''p1'' =
     Some \<lparr>p_id = ''p1'', availableStock = 7\<rparr>"
  by code_simp

section \<open>Failed calls\<close>

text \<open>
  C3 (as amended). A \<^verbatim>\<open>create\<close> call that ends in an error, an \<^verbatim>\<open>expire\<close> call that
  ends in an error, and a \<^verbatim>\<open>complete\<close> call that ends in an error other than the
  "expired" one leave the whole state as it was before the call: every product's stock,
  every reservation's status, the queue.
\<close>

theorem failed_call_leaves_state:
  "(\<forall>e. fst (create now dateNow schedNow newId dto s) = Inl e \<longrightarrow>
        snd (create now dateNow schedNow newId dto s) = s) \<and>
   (\<forall>e. fst (expire i s) = Inl e \<longrightarrow> snd (expire i s) = s) \<and>
   (\<forall>e. fst (complete now i s) = Inl e \<and> e \<noteq> ReservationHasExpired \<longrightarrow>
        snd (complete now i s) = s)"
  by (simp add: create_error_state expire_error_state complete_error_state)

theorem failed_call_leaves_state_witness:
  "fst (create 2000 2000 2000 ''r2'' \<lparr>dto_productId = ''p1'', dto_quantity = 5\<rparr> shopStaleHold) =
     Inl (InsufficientStock 2 5) \<and>
   snd (create 2000 2000 2000 ''r2'' \<lparr>dto_productId = ''p1'', dto_quantity = 5\<rparr> shopStaleHold) =
     shopStaleHold \<and>
   fst (expire ''r1'' shopOrphanHold) = Inl RecordNotFound \<and>
   snd (expire ''r1'' shopOrphanHold) = shopOrphanHold \<and>
   fst (expire ''r1'' shopFullStock) = Inl IntegerOutOfRange \<and>
   snd (expire ''r1'' shopFullStock) = shopFullStock \<and>
   fst (complete 2000 ''r9'' shopStaleHold) = Inl (ReservationNotFound ''r9'') \<and>
   snd (complete 2000 ''r9'' shopStaleHold) = shopStaleHold \<and>
   fst (complete 2000 ''r1'' shopFullStock) = Inl IntegerOutOfRange \<and>
   snd (complete 2000 ''r1'' shopFullStock) = shopFullStock"
proof -
  have c: "fst (create 2000 2000 2000 ''r2'' \<lparr>dto_productId = ''p1'', dto_quantity = 5\<rparr> shopStaleHold) =
      Inl (InsufficientStock 2 5)"
    by code_simp
  have e: "fst (expire ''r1'' shopOrphanHold) = Inl RecordNotFound"
    by code_simp
  have k: "fst (complete 2000 ''r9'' shopStaleHold) = Inl (ReservationNotFound ''r9'')"
    by code_simp
  have e2: "fst (expire ''r1'' shopFullStock) = Inl IntegerOutOfRange"
    by code_simp
  have k2: "fst (complete 2000 ''r1'' shopFullStock) = Inl IntegerOutOfRange"
    by code_simp
  from c e k e2 k2
    failed_call_leaves_state [where s = shopStaleHold and now = 2000 and dateNow = 2000
      and schedNow = 2000 and newId = "''r2''" and i = "''r9''"
      and dto = "\<lparr>dto_productId = ''p1'', dto_quantity = 5\<rparr>"]
    failed_call_leaves_state [where s = shopOrphanHold and i = "''r1''"]
    failed_call_leaves_state [where s = shopFullStock and i = "''r1''" and now = 2000]
  show ?thesis by simp
qed

text \<open>
  The claim as it was stated (a failed call leaves the stock as it was, and applies all of
  its writes or none) fails for \<^verbatim>\<open>complete\<close> past the deadline: the call ends in the
  "expired" error, the stock has gone from 0 to 2, and the status write is not applied.
\<close>

theorem failed_complete_changes_stock:
  "fst (complete 2000 ''r1'' shopStaleHold) = Inl ReservationHasExpired \<and>
   findUniqueProduct (database shopStaleHold) ''p1'' = Some \<lparr>p_id = ''p1'', availableStock = 0\<rparr> \<and>
   findUniqueProduct (database (snd (complete 2000 ''r1'' shopStaleHold))) ''p1'' =
     Some \<lparr>p_id = ''p1'', availableStock = 2\<rparr> \<and>
   map status (reservations (database (snd (complete 2000 ''r1'' shopStaleHold)))) = [ACTIVE]"
  by code_simp

section \<open>Insufficient stock\<close>

text \<open>
  C4 (as amended). When \<^verbatim>\<open>create\<close> fails with InsufficientStock, the lazy expiration
  of its first step is rolled back with the rest of the transaction: the state after the call
  is the state before it, so a stale ACTIVE reservation is still ACTIVE, its quantity is not
  restored, and no reservation is created. The stock that is compared with the requested
  quantity is the stock after the lazy expiration: the call fails with InsufficientStock
  whenever the product exists, the store accepts the increment of the lazy expiration (the
  sum of the stale quantities and the restored stock fit the 32-bit column), and the
  restored stock is less than the requested quantity.
\<close>

theorem create_insufficient_stock_rolls_back:
  "(\<forall>a b. fst (create now dateNow schedNow newId dto s) = Inl (InsufficientStock a b) \<longrightarrow>
      snd (create now dateNow schedNow newId dto s) = s) \<and>
   (\<forall>p. findUniqueProduct (database s) (dto_productId dto) = Some p \<and>
        fitsInt4 (totalQuantity (findExpiredOfProduct (database s) (dto_productId dto) now)) \<and>
        fitsInt4 (availableStock p +
          totalQuantity (findExpiredOfProduct (database s) (dto_productId dto) now)) \<and>
        availableStock p +
          totalQuantity (findExpiredOfProduct (database s) (dto_productId dto) now) < dto_quantity dto \<longrightarrow>
      fst (create now dateNow schedNow newId dto s) =
        Inl (InsufficientStock
               (availableStock p +
                  totalQuantity (findExpiredOfProduct (database s) (dto_productId dto) now))
               (dto_quantity dto)))"
proof -
  have "fst (create now dateNow schedNow newId dto s) =
          Inl (InsufficientStock
                 (availableStock p +
                    totalQuantity (findExpiredOfProduct (database s) (dto_productId dto) now))
                 (dto_quantity dto))"
    if "findUniqueProduct (database s) (dto_productId dto) = Some p"
      and "fitsInt4 (totalQuantity (findExpiredOfProduct (database s) (dto_productId dto) now))"
      and "fitsInt4 (availableStock p +
             totalQuantity (findExpiredOfProduct (database s) (dto_productId dto) now))"
      and "availableStock p +
             totalQuantity (findExpiredOfProduct (database s) (dto_productId dto) now) < dto_quantity dto"
    for p
    using create_body_insufficient [OF that, where dateNow = dateNow and newId = newId]
    by (auto simp: create_def transaction_def split: prod.splits sum.splits)
  then show ?thesis
    by (simp add: create_error_state)
qed

theorem create_insufficient_stock_rolls_back_witness:
  "findUniqueProduct (database shopStaleHold) ''p1'' = Some \<lparr>p_id = ''p1'', availableStock = 0\<rparr> \<and>
   totalQuantity (findExpiredOfProduct (database shopStaleHold) ''p1'' 2000) = 2 \<and>
   fitsInt4 2 \<and> fitsInt4 (0 + 2) \<and>
   fst (create 2000 2000 2000 ''r2'' \<lparr>dto_productId = ''p1'', dto_quantity = 5\<rparr> shopStaleHold) =
     Inl (InsufficientStock 2 5) \<and>
   snd (create 2000 2000 2000 ''r2'' \<lparr>dto_productId = ''p1'', dto_quantity = 5\<rparr> shopStaleHold) =
     shopStaleHold"
proof -
  have p: "findUniqueProduct (database shopStaleHold) ''p1'' = Some \<lparr>p_id = ''p1'', availableStock = 0\<rparr>"
    by code_simp
  have q: "totalQuantity (findExpiredOfProduct (database shopStaleHold) ''p1'' 2000) = 2"
    by code_simp
  have f: "fitsInt4 2" "fitsInt4 (0 + 2)"
    by (simp_all add: fitsInt4_def)
  from p q f
    create_insufficient_stock_rolls_back [where s = shopStaleHold and now = 2000 and dateNow = 2000
      and schedNow = 2000 and newId = "''r2''"
      and dto = "\<lparr>dto_productId = ''p1'', dto_quantity = 5\<rparr>"]
  show ?thesis by simp
qed

text \<open>
  The claim as it was stated (the lazy expiration stays committed) fails: the product has no
  stock and a hold of two units that ran out at 1000; a create of five units at 2000 fails
  with InsufficientStock (available 2, requested 5), and afterwards the hold is still ACTIVE
  and the stock is still 0.
\<close>

theorem lazy_expiration_not_committed:
  "fst (create 2000 2000 2000 ''r2'' \<lparr>dto_productId = ''p1'', dto_quantity = 5\<rparr> shopStaleHold) =
     Inl (InsufficientStock 2 5) \<and>
   findUniqueReservation
     (database (snd (create 2000 2000 2000 ''r2'' \<lparr>dto_productId = ''p1'', dto_quantity = 5\<rparr>
        shopStaleHold))) ''r1'' = Some staleHold \<and>
   status staleHold = ACTIVE \<and> expiresAt staleHold \<le> 2000 \<and>
   findUniqueProduct
     (database (snd (create 2000 2000 2000 ''r2'' \<lparr>dto_productId = ''p1'', dto_quantity = 5\<rparr>
        shopStaleHold))) ''p1'' = Some \<lparr>p_id = ''p1'', availableStock = 0\<rparr>"
  by code_simp

section \<open>Idempotent expire\<close>



section \<open>A successful create\<close>

text \<open>
  C6. When the product exists, the requested quantity is at least 1 (what the validation of
  the request demands), the lazy expiration of the first step goes through (the sum of the
  stale quantities and the restored stock fit the 32-bit column) and the stock after it (the
  product's stock plus the quantities of its stale holds) is at least the requested
  quantity, \<^verbatim>\<open>create\<close> returns a new reservation with status ACTIVE whose
  \<^verbatim>\<open>expiresAt\<close> is the reading of \<^verbatim>\<open>Date.now()\<close> plus 120 seconds (120 * 1000 ms),
  stores it, and leaves the product's stock at the stock after the lazy expiration minus the
  quantity. The id the store generates for the new row is one no reservation has.
\<close>

theorem create_reserves_and_decrements:
  assumes "findUniqueProduct (database s) pid = Some p"
    and "fitsInt4 (totalQuantity (findExpiredOfProduct (database s) pid now))"
    and "fitsInt4 (availableStock p + totalQuantity (findExpiredOfProduct (database s) pid now))"
    and "1 \<le> qty"
    and "qty \<le> availableStock p + totalQuantity (findExpiredOfProduct (database s) pid now)"
    and "findUniqueReservation (database s) newId = None"
  shows "fst (create now dateNow schedNow newId \<lparr>dto_productId = pid, dto_quantity = qty\<rparr> s) =
           Inr \<lparr>r_id = newId, productId = pid, quantity = qty, status = ACTIVE,
                expiresAt = dateNow + 120 * 1000\<rparr> \<and>
         findUniqueReservation
           (database (snd (create now dateNow schedNow newId
              \<lparr>dto_productId = pid, dto_quantity = qty\<rparr> s))) newId =
           Some \<lparr>r_id = newId, productId = pid, quantity = qty, status = ACTIVE,
                 expiresAt = dateNow + 120 * 1000\<rparr> \<and>
         findUniqueProduct
           (database (snd (create now dateNow schedNow newId
              \<lparr>dto_productId = pid, dto_quantity = qty\<rparr> s))) pid =
           Some (p\<lparr>availableStock :=
                    availableStock p + totalQuantity (findExpiredOfProduct (database s) pid now)
                      - qty\<rparr>)"
proof -
  from create_body_success [OF assms, where dateNow = dateNow]
  obtain t where
    body: "create_body now dateNow newId pid qty \<lparr>outer = s, pending = []\<rparr> =
       (Inr \<lparr>r_id = newId, productId = pid, quantity = qty, status = ACTIVE,
             expiresAt = dateNow + RESERVATION_DURATION_MS\<rparr>, t)"
    and "outer t = s"
    and "findUniqueProduct (tx_view t) pid =
       Some (p\<lparr>availableStock :=
                availableStock p + totalQuantity (findExpiredOfProduct (database s) pid now) - qty\<rparr>)"
    and "findUniqueReservation (tx_view t) newId =
       Some \<lparr>r_id = newId, productId = pid, quantity = qty, status = ACTIVE,
             expiresAt = dateNow + RESERVATION_DURATION_MS\<rparr>"
    by blast
  then show ?thesis
    by (simp add: create_def transaction_def RESERVATION_DURATION_MS_def)
qed

theorem create_reserves_and_decrements_witness:
  "findUniqueProduct (database shopStaleHold) ''p1'' = Some \<lparr>p_id = ''p1'', availableStock = 0\<rparr> \<and>
   totalQuantity (findExpiredOfProduct (database shopStaleHold) ''p1'' 2000) = 2 \<and>
   fitsInt4 2 \<and> fitsInt4 (0 + 2) \<and> (1 :: int) \<le> 2 \<and>
   findUniqueReservation (database shopStaleHold) ''r2'' = None \<and>
   fst (create 2000 2500 3000 ''r2'' \<lparr>dto_productId = ''p1'', dto_quantity = 2\<rparr> shopStaleHold) =
     Inr \<lparr>r_id = ''r2'', productId = ''p1'', quantity = 2, status = ACTIVE, expiresAt = 122500\<rparr> \<and>
   findUniqueProduct
     (database (snd (create 2000 2500 3000 ''r2'' \<lparr>dto_productId = ''p1'', dto_quantity = 2\<rparr>
        shopStaleHold))) ''p1'' = Some \<lparr>p_id = ''p1'', availableStock = 0\<rparr>"
proof -
  have p: "findUniqueProduct (database shopStaleHold) ''p1'' = Some \<lparr>p_id = ''p1'', availableStock = 0\<rparr>"
    by code_simp
  have q: "totalQuantity (findExpiredOfProduct (database shopStaleHold) ''p1'' 2000) = 2"
    by code_simp
  have f: "fitsInt4 2" "fitsInt4 (0 + 2)"
    by (simp_all add: fitsInt4_def)
  have f1: "fitsInt4 (totalQuantity (findExpiredOfProduct (database shopStaleHold) ''p1'' 2000))"
    and f2: "fitsInt4 (availableStock \<lparr>p_id = ''p1'', availableStock = 0\<rparr> +
      totalQuantity (findExpiredOfProduct (database shopStaleHold) ''p1'' 2000))"
    by (simp_all add: q fitsInt4_def)
  have one: "(1 :: int) \<le> 2"
    by simp
  have enough: "2 \<le> availableStock \<lparr>p_id = ''p1'', availableStock = 0\<rparr> +
      totalQuantity (findExpiredOfProduct (database shopStaleHold) ''p1'' 2000)"
    by (simp add: q)
  have fresh: "findUniqueReservation (database shopStaleHold) ''r2'' = None"
    by code_simp
  from create_reserves_and_decrements [OF p f1 f2 one enough fresh,
      where dateNow = 2500 and schedNow = 3000]
    p q f fresh
  show ?thesis by simp
qed

section \<open>Recovery after a restart\<close>

text \<open>
  C7. Claimed: recovery expires every ACTIVE reservation with \<^verbatim>\<open>expiresAt <= now\<close> and
  schedules one task for each of the others. The loop tests \<^verbatim>\<open>now > expiresAt\<close> and,
  in the other branch, schedules only when \<^verbatim>\<open>remainingTime > 0\<close>: a reservation whose
  deadline is the instant of the recovery is neither expired nor scheduled. Here one ACTIVE
  hold has deadline 5000 and recovery runs at 5000: the state is unchanged, the hold is still
  ACTIVE and no job stands under its key.
\<close>

theorem recovery_passes_over_deadline_now:
  "status boundaryHold = ACTIVE \<and> expiresAt boundaryHold \<le> 5000 \<and>
   recoverReservations 5000 shopBoundaryHold = shopBoundaryHold \<and>
   findUniqueReservation (database (recoverReservations 5000 shopBoundaryHold)) ''r1'' =
     Some boundaryHold \<and>
   getJob (expirationQueue (recoverReservations 5000 shopBoundaryHold)) (expireKey ''r1'') = Inr None"
  by code_simp

section \<open>Scheduling an expiration job\<close>

text \<open>
  C8 (as amended). On a queue that answers, with no task under the key
  \<^verbatim>\<open>expire-<id>\<close>: when \<^verbatim>\<open>expiresAt > now\<close>, \<^verbatim>\<open>scheduleExpirationJob\<close> enqueues
  one task under that key, with delay \<^verbatim>\<open>expiresAt - now\<close> (which is
  \<^verbatim>\<open>max(0, expiresAt - now)\<close>), and it is the only task under the key; when
  \<^verbatim>\<open>expiresAt <= now\<close>, nothing is enqueued. A call for an id while a task stands under
  its key changes nothing.
\<close>

theorem scheduleExpirationJob_effect:
  assumes "online q"
  shows "(\<forall>j. find (\<lambda>j. jobId j = ''expire-'' @ i) (jobs q) = Some j \<longrightarrow>
            scheduleExpirationJob q i expAt now = q) \<and>
         (find (\<lambda>j. jobId j = ''expire-'' @ i) (jobs q) = None \<and> now < expAt \<longrightarrow>
            scheduleExpirationJob q i expAt now = q\<lparr>jobs := jobs q @ [expirationJob i (expAt - now)]\<rparr> \<and>
            jobId (expirationJob i (expAt - now)) = ''expire-'' @ i \<and>
            reservationId (expirationJob i (expAt - now)) = i \<and>
            delay (expirationJob i (expAt - now)) = max 0 (expAt - now) \<and>
            filter (\<lambda>j. jobId j = ''expire-'' @ i) (jobs (scheduleExpirationJob q i expAt now)) =
              [expirationJob i (expAt - now)]) \<and>
         (find (\<lambda>j. jobId j = ''expire-'' @ i) (jobs q) = None \<and> expAt \<le> now \<longrightarrow>
            scheduleExpirationJob q i expAt now = q)"
  using assms
  by (simp add: scheduleExpirationJob_def getJob_def addJob_def expirationJob_def expireKey_def
        find_None_filter)

theorem scheduleExpirationJob_effect_witness:
  "online emptyQueue \<and> online queueWithJob \<and>
   find (\<lambda>j. jobId j = ''expire-'' @ ''r1'') (jobs queueWithJob) = Some (expirationJob ''r1'' 600) \<and>
   scheduleExpirationJob queueWithJob ''r1'' 1000 500 = queueWithJob \<and>
   find (\<lambda>j. jobId j = ''expire-'' @ ''r1'') (jobs emptyQueue) = None \<and>
   scheduleExpirationJob emptyQueue ''r1'' 1000 400 = queueWithJob \<and>
   delay (expirationJob ''r1'' (1000 - 400)) = 600 \<and>
   scheduleExpirationJob emptyQueue ''r1'' 1000 1000 = emptyQueue"
proof -
  have on: "online emptyQueue" "online queueWithJob"
    by (simp_all add: emptyQueue_def queueWithJob_def)
  have there: "find (\<lambda>j. jobId j = ''expire-'' @ ''r1'') (jobs queueWithJob) =
      Some (expirationJob ''r1'' 600)"
    by (simp add: queueWithJob_def expirationJob_def expireKey_def)
  have none: "find (\<lambda>j. jobId j = ''expire-'' @ ''r1'') (jobs emptyQueue) = None"
    by (simp add: emptyQueue_def)
  have same: "emptyQueue\<lparr>jobs := jobs emptyQueue @ [expirationJob ''r1'' (1000 - 400)]\<rparr> = queueWithJob"
    by (simp add: emptyQueue_def queueWithJob_def)
  from on there none same
    scheduleExpirationJob_effect [OF on(2), where i = "''r1''" and expAt = 1000 and now = 500]
    scheduleExpirationJob_effect [OF on(1), where i = "''r1''" and expAt = 1000 and now = 400]
    scheduleExpirationJob_effect [OF on(1), where i = "''r1''" and expAt = 1000 and now = 1000]
  show ?thesis by simp
qed

text \<open>
  The claim as it was stated (every call enqueues one task, with delay
  \<^verbatim>\<open>max(0, expiresAt - now)\<close>) fails when the deadline is not in the future: the call
  with deadline 1000 at time 1000 on an empty queue that answers leaves the queue empty, and
  no task stands under the key.
\<close>

theorem schedule_at_deadline_enqueues_nothing:
  "online emptyQueue \<and> jobs emptyQueue = [] \<and>
   max 0 (1000 - 1000) = (0 :: int) \<and>
   jobs (scheduleExpirationJob emptyQueue ''r1'' 1000 1000) = [] \<and>
   getJob (scheduleExpirationJob emptyQueue ''r1'' 1000 1000) (expireKey ''r1'') = Inr None"
  by code_simp

section \<open>Reading a reservation\<close>

text \<open>
  C9. \<^verbatim>\<open>findOne\<close> writes nothing: the state after the call is the state before it
  (every product's stock, every reservation's status, the queue). It returns the stored row
  as it is: a reservation stored as ACTIVE whose \<^verbatim>\<open>expiresAt\<close> lies before the
  current time \<open>now\<close> comes back with status ACTIVE, and is still stored so. No read
  expires anything.
\<close>

theorem findOne_reads_only:
  "snd (findOne i s) = s \<and>
   (findUniqueReservation (database s) i = None \<longrightarrow>
      fst (findOne i s) = Inl (ReservationNotFound i)) \<and>
   (\<forall>r now. findUniqueReservation (database s) i = Some r \<and> status r = ACTIVE \<and> expiresAt r < now \<longrightarrow>
      (\<exists>res p. fst (findOne i s) = Inr (res, p) \<and> res = r \<and> status res = ACTIVE) \<and>
      findUniqueReservation (database (snd (findOne i s))) i = Some r)"
  by (auto simp: findOne_def split: option.splits)

theorem findOne_reads_only_witness:
  "findUniqueReservation (database shopStaleHold) ''r1'' = Some staleHold \<and>
   status staleHold = ACTIVE \<and> expiresAt staleHold < 2000 \<and>
   snd (findOne ''r1'' shopStaleHold) = shopStaleHold \<and>
   (\<exists>p. fst (findOne ''r1'' shopStaleHold) = Inr (staleHold, p)) \<and>
   findUniqueReservation (database shopStaleHold) ''r9'' = None \<and>
   fst (findOne ''r9'' shopStaleHold) = Inl (ReservationNotFound ''r9'')"
proof -
  have row: "findUniqueReservation (database shopStaleHold) ''r1'' = Some staleHold"
    by code_simp
  have stale: "status staleHold = ACTIVE" "expiresAt staleHold < 2000"
    by (simp_all add: staleHold_def)
  have missing: "findUniqueReservation (database shopStaleHold) ''r9'' = None"
    by code_simp
  from row stale missing
    findOne_reads_only [where s = shopStaleHold and i = "''r1''"]
    findOne_reads_only [where s = shopStaleHold and i = "''r9''"]
  show ?thesis by auto
qed

section \<open>Expiring before the deadline\<close>



end
